theory Spec2Isabelle
  imports Complex_Main "HOL-Library.Log_Nat"
begin

unbundle bit_operations_syntax

section \<open>pyppeteer/input.py: keyboard, mouse and touchscreen input emulation\<close>

text \<open>
  The module drives a browser through a \<^verbatim>\<open>Session\<close> object: every public
  coroutine builds a dictionary and hands it to \<^verbatim>\<open>self._client.send\<close>, and some
  coroutines pause with \<^verbatim>\<open>asyncio.sleep\<close>. The embedding records these two
  effects, in program order, in a list carried by the state, next to the two
  attributes of \<^verbatim>\<open>Keyboard\<close> that the module mutates and that
  \<^verbatim>\<open>Mouse\<close> and \<^verbatim>\<open>Touchscreen\<close> read. Of \<^verbatim>\<open>Mouse\<close>, the method
  \<^verbatim>\<open>move\<close> is embedded, with the attributes of the mouse in a record of their own.
\<close>

subsection \<open>Data\<close>

text \<open>
  The values that occur in the dictionaries passed to \<^verbatim>\<open>send\<close>: strings,
  integers, booleans, lists and nested dictionaries. A dictionary literal is kept
  as the list of its items in source order.
\<close>

datatype json = Str string | Num int | Bool bool | Arr "json list" | Obj "(string \<times> json) list"

text \<open>
  \<^verbatim>\<open>Send method params\<close> is one call \<^verbatim>\<open>await self._client.send(method, params)\<close>;
  \<^verbatim>\<open>Sleep d\<close> is one call \<^verbatim>\<open>await asyncio.sleep(d / 1000)\<close>, a pause of
  \<open>d\<close> milliseconds. The class \<^verbatim>\<open>Session\<close> lives in
  \<^verbatim>\<open>pyppeteer.connection\<close>; here a send is recorded and returns normally.
\<close>

datatype effect = Send string "(string \<times> json) list" | Sleep int

text \<open>
  The two exceptions the module can raise by itself:
  \<^verbatim>\<open>PyppeteerError(f'Unknown key: {keyString}')\<close> in
  \<^verbatim>\<open>_keyDescriptionForString\<close>, and the \<^verbatim>\<open>KeyError\<close> of
  \<^verbatim>\<open>set.remove\<close> in \<^verbatim>\<open>up\<close>, which carries the missing element.
\<close>

datatype error = PyppeteerError string | KeyError string

text \<open>
  One entry of \<^verbatim>\<open>keyDefinitions\<close> (module \<^verbatim>\<open>pyppeteer.us_keyboard_layout\<close>):
  a dictionary in which each of the eight keys the code reads may be missing.
\<close>

record key_definition =
  def_key :: "string option"
  def_shiftKey :: "string option"
  def_keyCode :: "int option"
  def_shiftKeyCode :: "int option"
  def_code :: "string option"
  def_location :: "int option"
  def_text :: "string option"
  def_shiftText :: "string option"

text \<open>The table itself is a parameter of every function that reads it.\<close>

type_synonym key_table = "string \<rightharpoonup> key_definition"

text \<open>The dictionary \<^verbatim>\<open>description\<close> built by \<^verbatim>\<open>_keyDescriptionForString\<close>.\<close>

record description =
  desc_key :: string
  desc_keyCode :: int
  desc_code :: string
  desc_text :: string
  desc_location :: int

text \<open>
  The state: the effects issued so far through the \<^verbatim>\<open>Session\<close> that the
  controllers share, \<^verbatim>\<open>Keyboard._modifiers\<close> (a Python integer) and
  \<^verbatim>\<open>Keyboard._pressedKeys\<close> (a set of strings).
\<close>

record input_state =
  effects :: "effect list"
  modifiers :: int
  pressedKeys :: "string set"

text \<open>The state after \<^verbatim>\<open>Keyboard.__init__\<close>.\<close>

definition init :: input_state where
  "init = \<lparr>effects = [], modifiers = 0, pressedKeys = {}\<rparr>"

text \<open>The options dictionary, with the two keys the keyboard methods read.\<close>

record options =
  opt_text :: "string option"
  opt_delay :: "int option"

definition no_options :: options where
  "no_options = \<lparr>opt_text = None, opt_delay = None\<rparr>"

subsection \<open>Python truth values\<close>

text \<open>
  \<^verbatim>\<open>if not definition\<close> holds for the empty dictionary. \<^verbatim>\<open>options.get('delay')\<close>
  is false when the key is missing and when its value is zero; \<^verbatim>\<open>options['delay']\<close>
  is read only after that test.
\<close>

definition empty_definition :: key_definition where
  "empty_definition = \<lparr>def_key = None, def_shiftKey = None, def_keyCode = None,
     def_shiftKeyCode = None, def_code = None, def_location = None, def_text = None,
     def_shiftText = None\<rparr>"

definition truthy_delay :: "options \<Rightarrow> bool" where
  "truthy_delay opts = (case opt_delay opts of None \<Rightarrow> False | Some d \<Rightarrow> d \<noteq> 0)"

definition get_delay :: "options \<Rightarrow> int" where
  "get_delay opts = (case opt_delay opts of None \<Rightarrow> 0 | Some d \<Rightarrow> d)"

subsection \<open>Keyboard\<close>

definition send :: "string \<Rightarrow> (string \<times> json) list \<Rightarrow> input_state \<Rightarrow> input_state" where
  "send method params s = s\<lparr>effects := effects s @ [Send method params]\<rparr>"

definition sleep :: "int \<Rightarrow> input_state \<Rightarrow> input_state" where
  "sleep d s = s\<lparr>effects := effects s @ [Sleep d]\<rparr>"

definition modifierBit :: "string \<Rightarrow> int" where
  "modifierBit k =
     (if k = ''Alt'' then 1
      else if k = ''Control'' then 2
      else if k = ''Meta'' then 4
      else if k = ''Shift'' then 8
      else 0)"

text \<open>
  \<^verbatim>\<open>_keyDescriptionForString\<close> reads \<^verbatim>\<open>self._modifiers\<close> and the table, raises
  for a missing or empty entry, assigns to no attribute and sends nothing: it
  returns the description or the error.
\<close>

definition keyDescriptionForString :: "key_table \<Rightarrow> input_state \<Rightarrow> string \<Rightarrow> error + description" where
  "keyDescriptionForString keyDefinitions s keyString =
     (let shift = modifiers s AND 8 in
      case keyDefinitions keyString of
        None \<Rightarrow> Inl (PyppeteerError (''Unknown key: '' @ keyString))
      | Some d \<Rightarrow>
          if d = empty_definition then Inl (PyppeteerError (''Unknown key: '' @ keyString))
          else
            let k0 = (case def_key d of Some v \<Rightarrow> v | None \<Rightarrow> []);
                k = (case def_shiftKey d of
                       Some v \<Rightarrow> if shift \<noteq> 0 \<and> v \<noteq> [] then v else k0
                     | None \<Rightarrow> k0);
                c0 = (case def_keyCode d of Some v \<Rightarrow> v | None \<Rightarrow> 0);
                c = (case def_shiftKeyCode d of
                       Some v \<Rightarrow> if shift \<noteq> 0 \<and> v \<noteq> 0 then v else c0
                     | None \<Rightarrow> c0);
                code = (case def_code d of Some v \<Rightarrow> v | None \<Rightarrow> []);
                loc = (case def_location d of Some v \<Rightarrow> v | None \<Rightarrow> 0);
                t0 = (if length k = 1 then k else []);
                t1 = (case def_text d of Some v \<Rightarrow> v | None \<Rightarrow> t0);
                t2 = (case def_shiftText d of
                        Some v \<Rightarrow> if shift \<noteq> 0 \<and> v \<noteq> [] then v else t1
                      | None \<Rightarrow> t1);
                t3 = (if modifiers s AND NOT 8 \<noteq> 0 then [] else t2)
            in Inr \<lparr>desc_key = k, desc_keyCode = c, desc_code = code, desc_text = t3,
                     desc_location = loc\<rparr>)"

text \<open>
  The coroutines return the exception raised, if any, together with the state
  at that moment: what was assigned before a \<^verbatim>\<open>raise\<close> stays assigned.
\<close>

definition down :: "key_table \<Rightarrow> string \<Rightarrow> options \<Rightarrow> input_state \<Rightarrow> error option \<times> input_state" where
  "down keyDefinitions key opts s =
     (case keyDescriptionForString keyDefinitions s key of
        Inl e \<Rightarrow> (Some e, s)
      | Inr description \<Rightarrow>
          let autoRepeat = (desc_key description \<in> pressedKeys s);
              s1 = s\<lparr>pressedKeys := insert (desc_code description) (pressedKeys s)\<rparr>;
              s2 = s1\<lparr>modifiers := modifiers s1 OR modifierBit (desc_key description)\<rparr>;
              txt = (case opt_text opts of None \<Rightarrow> desc_text description | Some t \<Rightarrow> t)
          in (None, send ''Input.dispatchKeyEvent''
                [(''type'', Str (if txt \<noteq> [] then ''keyDown'' else ''rawKeyDown'')),
                 (''modifiers'', Num (modifiers s2)),
                 (''windowsVirtualKeyCode'', Num (desc_keyCode description)),
                 (''code'', Str (desc_code description)),
                 (''key'', Str (desc_key description)),
                 (''text'', Str txt),
                 (''unmodifiedText'', Str txt),
                 (''autoRepeat'', Bool autoRepeat),
                 (''location'', Num (desc_location description)),
                 (''isKeypad'', Bool (desc_location description = 3))] s2))"

definition up :: "key_table \<Rightarrow> string \<Rightarrow> input_state \<Rightarrow> error option \<times> input_state" where
  "up keyDefinitions key s =
     (case keyDescriptionForString keyDefinitions s key of
        Inl e \<Rightarrow> (Some e, s)
      | Inr description \<Rightarrow>
          let s1 = s\<lparr>modifiers := modifiers s AND NOT (modifierBit (desc_key description))\<rparr>
          in if desc_code description \<notin> pressedKeys s1
             then (Some (KeyError (desc_code description)), s1)
             else
               let s2 = s1\<lparr>pressedKeys := pressedKeys s1 - {desc_code description}\<rparr>
               in (None, send ''Input.dispatchKeyEvent''
                     [(''type'', Str ''keyUp''),
                      (''modifiers'', Num (modifiers s2)),
                      (''key'', Str (desc_key description)),
                      (''windowsVirtualKeyCode'', Num (desc_keyCode description)),
                      (''code'', Str (desc_code description)),
                      (''location'', Num (desc_location description))] s2))"

definition sendCharacter :: "string \<Rightarrow> input_state \<Rightarrow> input_state" where
  "sendCharacter c s =
     send ''Input.dispatchKeyEvent''
       [(''type'', Str ''char''),
        (''modifiers'', Num (modifiers s)),
        (''text'', Str c),
        (''key'', Str c),
        (''unmodifiedText'', Str c)] s"

definition press :: "key_table \<Rightarrow> string \<Rightarrow> options \<Rightarrow> input_state \<Rightarrow> error option \<times> input_state" where
  "press keyDefinitions key opts s =
     (case down keyDefinitions key opts s of
        (Some e, s1) \<Rightarrow> (Some e, s1)
      | (None, s1) \<Rightarrow>
          up keyDefinitions key
            (if truthy_delay opts then sleep (get_delay opts) s1 else s1))"

text \<open>
  The loop of \<^verbatim>\<open>type\<close> over the characters of \<^verbatim>\<open>text\<close>; \<open>delay\<close> is the
  local variable set before the loop. The test \<^verbatim>\<open>'char' in keyDefinitions\<close> asks
  whether the table has an entry under the name \<^verbatim>\<open>char\<close>.
  Each element of the string is passed on as a string of length one.
\<close>

fun type_loop :: "key_table \<Rightarrow> int \<Rightarrow> string \<Rightarrow> input_state \<Rightarrow> error option \<times> input_state" where
  "type_loop keyDefinitions delay [] s = (None, s)"
| "type_loop keyDefinitions delay (c # cs) s =
     (case (if keyDefinitions ''char'' \<noteq> None
            then press keyDefinitions [c] \<lparr>opt_text = None, opt_delay = Some delay\<rparr> s
            else (None, sendCharacter [c] s)) of
        (Some e, s1) \<Rightarrow> (Some e, s1)
      | (None, s1) \<Rightarrow>
          type_loop keyDefinitions delay cs (if delay \<noteq> 0 then sleep delay s1 else s1))"

definition type_text :: "key_table \<Rightarrow> string \<Rightarrow> options \<Rightarrow> input_state \<Rightarrow> error option \<times> input_state" where
  "type_text keyDefinitions txt opts s =
     type_loop keyDefinitions
       (if truthy_delay opts then get_delay opts else 0) txt s"

subsection \<open>Touchscreen\<close>

text \<open>
  Python's \<^verbatim>\<open>round\<close> with one argument returns the nearest integer and, halfway
  between two integers, the even one. A coordinate is a finite number; every
  finite float is a rational, and on it \<^verbatim>\<open>round\<close> is exact.
\<close>

definition py_round :: "rat \<Rightarrow> int" where
  "py_round x =
     (let f = \<lfloor>x\<rfloor>; r = x - of_int f
      in if r < 1 / 2 then f
         else if 1 / 2 < r then f + 1
         else if even f then f else f + 1)"

text \<open>
  \<^verbatim>\<open>Touchscreen.tap\<close> sends through the shared session and reads
  \<^verbatim>\<open>self._keyboard._modifiers\<close> for each of its two dictionaries.
\<close>

definition tap :: "rat \<Rightarrow> rat \<Rightarrow> input_state \<Rightarrow> input_state" where
  "tap x y s =
     (let touchPoints = [Obj [(''x'', Num (py_round x)), (''y'', Num (py_round y))]];
          s1 = send ''Input.dispatchTouchEvent''
                 [(''type'', Str ''touchStart''),
                  (''touchPoints'', Arr touchPoints),
                  (''modifiers'', Num (modifiers s))] s
      in send ''Input.dispatchTouchEvent''
           [(''type'', Str ''touchEnd''),
            (''touchPoints'', Arr []),
            (''modifiers'', Num (modifiers s1))] s1)"

subsection \<open>Floating-point arithmetic\<close>

text \<open>
  \<^verbatim>\<open>Mouse.move\<close> computes with Python floats: IEEE 754 binary64 values, every
  operation rounded to the nearest representable value, ties to the even
  significand. A finite float is held as the rational it denotes; the two
  infinities (\<open>Inf True\<close> is the positive one) and NaN are values of their own.
  The two zeros are not told apart: no operation used here distinguishes them.
  An integer coordinate that a float represents exactly behaves in \<^verbatim>\<open>move\<close> as
  that float does, since Python converts it with the same rounding.
\<close>

datatype pyfloat = Finite rat | Inf bool | NaN

text \<open>
  \<open>pow2 e\<close> is 2 to the power \<open>e\<close>; \<open>ilog2 q\<close>, for positive \<open>q\<close>, is the integer part
  of the binary logarithm of \<open>q\<close>.
\<close>

definition pow2 :: "int \<Rightarrow> rat" where
  "pow2 e = (if 0 \<le> e then 2 ^ nat e else 1 / 2 ^ nat (- e))"

definition ilog2 :: "rat \<Rightarrow> int" where
  "ilog2 q = (if 1 \<le> q then bitlen \<lfloor>q\<rfloor> - 1 else - bitlen (\<lceil>1 / q\<rceil> - 1))"

text \<open>
  Rounding a rational to binary64. The significand has 53 bits, so the result is
  a multiple of 2 to the power \<open>e\<close>, where \<open>e\<close> is 52 below the exponent of \<open>q\<close> and
  never less than -1074 (the subnormal range); a result of magnitude
  \<open>2 ^ 1024\<close> or more overflows to an infinity.
\<close>

definition round_binary64 :: "rat \<Rightarrow> pyfloat" where
  "round_binary64 q =
     (if q = 0 then Finite 0
      else
        let e = max (ilog2 \<bar>q\<bar> - 52) (- 1074);
            r = of_int (py_round (q / pow2 e)) * pow2 e
        in if 2 ^ 1024 \<le> \<bar>r\<bar> then Inf (0 < q) else Finite r)"

text \<open>Negation, addition, subtraction and multiplication of floats.\<close>

fun fneg :: "pyfloat \<Rightarrow> pyfloat" where
  "fneg (Finite a) = Finite (- a)"
| "fneg (Inf p) = Inf (\<not> p)"
| "fneg NaN = NaN"

fun fadd :: "pyfloat \<Rightarrow> pyfloat \<Rightarrow> pyfloat" where
  "fadd (Finite a) (Finite b) = round_binary64 (a + b)"
| "fadd NaN b = NaN"
| "fadd a NaN = NaN"
| "fadd (Inf p) (Inf q) = (if p = q then Inf p else NaN)"
| "fadd (Inf p) (Finite b) = Inf p"
| "fadd (Finite a) (Inf q) = Inf q"

definition fsub :: "pyfloat \<Rightarrow> pyfloat \<Rightarrow> pyfloat" where
  "fsub a b = fadd a (fneg b)"

fun fmul :: "pyfloat \<Rightarrow> pyfloat \<Rightarrow> pyfloat" where
  "fmul (Finite a) (Finite b) = round_binary64 (a * b)"
| "fmul NaN b = NaN"
| "fmul a NaN = NaN"
| "fmul (Inf p) (Inf q) = Inf (p = q)"
| "fmul (Inf p) (Finite b) = (if b = 0 then NaN else Inf (p = (0 < b)))"
| "fmul (Finite a) (Inf q) = (if a = 0 then NaN else Inf (q = (0 < a)))"

text \<open>
  The exceptions of the arithmetic: \<^verbatim>\<open>i / steps\<close> on integers raises
  \<^verbatim>\<open>ZeroDivisionError\<close> for a zero divisor and \<^verbatim>\<open>OverflowError\<close> when the quotient
  is too large for a float, and is correctly rounded otherwise; \<^verbatim>\<open>round\<close> raises
  \<^verbatim>\<open>OverflowError\<close> on an infinity and \<^verbatim>\<open>ValueError\<close> on NaN.
\<close>

datatype arith_error = ZeroDivisionError | OverflowError | ValueError

definition truediv :: "int \<Rightarrow> int \<Rightarrow> arith_error + pyfloat" where
  "truediv i n =
     (if n = 0 then Inl ZeroDivisionError
      else case round_binary64 (of_int i / of_int n) of
             Finite q \<Rightarrow> Inr (Finite q)
           | Inf p \<Rightarrow> Inl OverflowError
           | NaN \<Rightarrow> Inl OverflowError)"

definition round_float :: "pyfloat \<Rightarrow> arith_error + int" where
  "round_float v =
     (case v of Finite q \<Rightarrow> Inr (py_round q) | Inf p \<Rightarrow> Inl OverflowError | NaN \<Rightarrow> Inl ValueError)"

subsection \<open>Mouse\<close>

text \<open>
  \<open>lerp origin target t\<close> is the float \<^verbatim>\<open>fromX + (self._x - fromX) * t\<close>, and
  \<open>interpolate origin target i steps\<close> is
  \<^verbatim>\<open>round(fromX + (self._x - fromX) * (i / steps))\<close>.
\<close>

definition lerp :: "pyfloat \<Rightarrow> pyfloat \<Rightarrow> pyfloat \<Rightarrow> pyfloat" where
  "lerp origin target t = fadd origin (fmul (fsub target origin) t)"

definition interpolate :: "pyfloat \<Rightarrow> pyfloat \<Rightarrow> int \<Rightarrow> int \<Rightarrow> arith_error + int" where
  "interpolate origin target i steps =
     (case truediv i steps of
        Inl e \<Rightarrow> Inl e
      | Inr t \<Rightarrow> round_float (lerp origin target t))"

text \<open>
  The attributes \<^verbatim>\<open>_x\<close>, \<^verbatim>\<open>_y\<close> and \<^verbatim>\<open>_button\<close> of \<^verbatim>\<open>Mouse\<close>, and their values
  after \<^verbatim>\<open>Mouse.__init__\<close>.
\<close>

record mouse =
  mouse_x :: pyfloat
  mouse_y :: pyfloat
  mouse_button :: string

definition mouse_init :: mouse where
  "mouse_init = \<lparr>mouse_x = Finite 0, mouse_y = Finite 0, mouse_button = ''none''\<rparr>"

text \<open>The options of \<^verbatim>\<open>move\<close>: \<^verbatim>\<open>options.get('steps', 1)\<close>.\<close>

record move_options =
  opt_steps :: "int option"

definition no_move_options :: move_options where
  "no_move_options = \<lparr>opt_steps = None\<rparr>"

definition get_steps :: "move_options \<Rightarrow> int" where
  "get_steps opts = (case opt_steps opts of None \<Rightarrow> 1 | Some n \<Rightarrow> n)"

text \<open>
  The loop of \<^verbatim>\<open>move\<close> over \<^verbatim>\<open>range(1, steps + 1)\<close>: both coordinates are computed,
  then the event is sent; an exception of the arithmetic ends the loop.
\<close>

fun move_loop :: "mouse \<Rightarrow> pyfloat \<Rightarrow> pyfloat \<Rightarrow> int \<Rightarrow> int list \<Rightarrow> input_state \<Rightarrow> arith_error option \<times> input_state" where
  "move_loop m fromX fromY steps [] s = (None, s)"
| "move_loop m fromX fromY steps (i # rest) s =
     (case interpolate fromX (mouse_x m) i steps of
        Inl e \<Rightarrow> (Some e, s)
      | Inr x \<Rightarrow>
          (case interpolate fromY (mouse_y m) i steps of
             Inl e \<Rightarrow> (Some e, s)
           | Inr y \<Rightarrow>
               move_loop m fromX fromY steps rest
                 (send ''Input.dispatchMouseEvent''
                    [(''type'', Str ''mouseMoved''),
                     (''button'', Str (mouse_button m)),
                     (''x'', Num x),
                     (''y'', Num y),
                     (''modifiers'', Num (modifiers s))] s)))"

text \<open>
  \<^verbatim>\<open>move\<close> assigns the target to \<^verbatim>\<open>_x\<close> and \<^verbatim>\<open>_y\<close> before the loop, so the new
  position is part of the result whatever the loop does.
\<close>

definition move :: "pyfloat \<Rightarrow> pyfloat \<Rightarrow> move_options \<Rightarrow> mouse \<times> input_state \<Rightarrow> arith_error option \<times> mouse \<times> input_state" where
  "move x y opts ms =
     (let fromX = mouse_x (fst ms);
          fromY = mouse_y (fst ms);
          m1 = (fst ms)\<lparr>mouse_x := x, mouse_y := y\<rparr>;
          steps = get_steps opts
      in case move_loop m1 fromX fromY steps [1..steps] (snd ms) of
           (r, s1) \<Rightarrow> (r, m1, s1))"

subsection \<open>A table for the examples\<close>

text \<open>
  Six entries of the shape a US layout has: a letter, the generic and the right
  Shift key, Alt, Control and Enter. There is no entry named \<^verbatim>\<open>char\<close>.
\<close>

definition sample_layout :: key_table where
  "sample_layout =
     [''a'' \<mapsto> empty_definition\<lparr>def_keyCode := Some 65, def_key := Some ''a'',
                def_code := Some ''KeyA''\<rparr>,
      ''Shift'' \<mapsto> empty_definition\<lparr>def_keyCode := Some 16, def_key := Some ''Shift'',
                def_code := Some ''ShiftLeft'', def_location := Some 1\<rparr>,
      ''ShiftRight'' \<mapsto> empty_definition\<lparr>def_keyCode := Some 16, def_key := Some ''Shift'',
                def_code := Some ''ShiftRight'', def_location := Some 2\<rparr>,
      ''Alt'' \<mapsto> empty_definition\<lparr>def_keyCode := Some 18, def_key := Some ''Alt'',
                def_code := Some ''AltLeft'', def_location := Some 1\<rparr>,
      ''Control'' \<mapsto> empty_definition\<lparr>def_keyCode := Some 17, def_key := Some ''Control'',
                def_code := Some ''ControlLeft'', def_location := Some 1\<rparr>,
      ''Enter'' \<mapsto> empty_definition\<lparr>def_keyCode := Some 13, def_key := Some ''Enter'',
                def_code := Some ''Enter'', def_text := Some [CHR 0x0D]\<rparr>]"

text \<open>Three states reached from the initial one by a single \<^verbatim>\<open>down\<close>.\<close>

definition shift_held :: input_state where
  "shift_held = snd (down sample_layout ''Shift'' no_options init)"

definition alt_held :: input_state where
  "alt_held = snd (down sample_layout ''Alt'' no_options init)"

definition control_held :: input_state where
  "control_held = snd (down sample_layout ''Control'' no_options init)"

text \<open>The mouse after \<^verbatim>\<open>move(1e16, 0)\<close> from its initial position.\<close>

definition far_right :: "mouse \<times> input_state" where
  "far_right = snd (move (Finite 10000000000000000) (Finite 0) no_move_options (mouse_init, init))"

section \<open>Properties\<close>

subsection \<open>Auxiliary facts\<close>

text \<open>Two facts about clearing bits of a Python integer.\<close>

lemma and_not_or: "((m::int) OR b) AND NOT b = m AND NOT b"
  by (simp add: bit.conj_disj_distrib2)

lemma and_not_eq_iff: "((m::int) AND NOT b = m) \<longleftrightarrow> (m AND b = 0)"
  by (metis (no_types, lifting) and.assoc and.right_neutral
    bit.conj_cancel_right bit.conj_xor_distrib bit.xor_compl_right
    xor.commute xor.right_neutral)

text \<open>
  A key name resolves exactly when the table has a non-empty entry for it; a name
  without an entry raises.
\<close>

lemma keyDescriptionForString_absent:
  "keyDefinitions key = None \<Longrightarrow>
     keyDescriptionForString keyDefinitions s key = Inl (PyppeteerError (''Unknown key: '' @ key))"
  by (simp add: keyDescriptionForString_def)

lemma keyDescriptionForString_resolves_iff:
  "(\<exists>description. keyDescriptionForString keyDefinitions s key = Inr description)
     \<longleftrightarrow> (\<exists>d. keyDefinitions key = Some d \<and> d \<noteq> empty_definition)"
  by (auto simp: keyDescriptionForString_def Let_def split: option.splits if_splits)

text \<open>What \<^verbatim>\<open>down\<close> and \<^verbatim>\<open>up\<close> do once the key name has resolved.\<close>

lemma down_resolved:
  assumes "keyDescriptionForString keyDefinitions s key = Inr description"
  shows "down keyDefinitions key opts s =
     (None, s\<lparr>pressedKeys := insert (desc_code description) (pressedKeys s),
              modifiers := modifiers s OR modifierBit (desc_key description),
              effects := effects s @
                [Send ''Input.dispatchKeyEvent''
                  [(''type'', Str (if (case opt_text opts of None \<Rightarrow> desc_text description | Some t \<Rightarrow> t) \<noteq> []
                                   then ''keyDown'' else ''rawKeyDown'')),
                   (''modifiers'', Num (modifiers s OR modifierBit (desc_key description))),
                   (''windowsVirtualKeyCode'', Num (desc_keyCode description)),
                   (''code'', Str (desc_code description)),
                   (''key'', Str (desc_key description)),
                   (''text'', Str (case opt_text opts of None \<Rightarrow> desc_text description | Some t \<Rightarrow> t)),
                   (''unmodifiedText'', Str (case opt_text opts of None \<Rightarrow> desc_text description | Some t \<Rightarrow> t)),
                   (''autoRepeat'', Bool (desc_key description \<in> pressedKeys s)),
                   (''location'', Num (desc_location description)),
                   (''isKeypad'', Bool (desc_location description = 3))]]\<rparr>)"
  using assms by (simp add: down_def send_def Let_def)

lemma up_missing:
  assumes "keyDescriptionForString keyDefinitions s key = Inr description"
    and "desc_code description \<notin> pressedKeys s"
  shows "up keyDefinitions key s =
     (Some (KeyError (desc_code description)),
      s\<lparr>modifiers := modifiers s AND NOT (modifierBit (desc_key description))\<rparr>)"
  using assms by (simp add: up_def Let_def)

lemma up_pressed:
  assumes "keyDescriptionForString keyDefinitions s key = Inr description"
    and "desc_code description \<in> pressedKeys s"
  shows "up keyDefinitions key s =
     (None, s\<lparr>modifiers := modifiers s AND NOT (modifierBit (desc_key description)),
              pressedKeys := pressedKeys s - {desc_code description},
              effects := effects s @
                [Send ''Input.dispatchKeyEvent''
                  [(''type'', Str ''keyUp''),
                   (''modifiers'', Num (modifiers s AND NOT (modifierBit (desc_key description)))),
                   (''key'', Str (desc_key description)),
                   (''windowsVirtualKeyCode'', Num (desc_keyCode description)),
                   (''code'', Str (desc_code description)),
                   (''location'', Num (desc_location description))]]\<rparr>)"
  using assms by (simp add: up_def send_def Let_def)

text \<open>Evaluating the functions on the example table.\<close>

lemmas eval_defs = down_def up_def keyDescriptionForString_def sample_layout_def empty_definition_def
        init_def no_options_def send_def modifierBit_def Let_def

lemma shift_held_eq:
  "shift_held = \<lparr>effects = [Send ''Input.dispatchKeyEvent''
       [(''type'', Str ''rawKeyDown''), (''modifiers'', Num 8),
        (''windowsVirtualKeyCode'', Num 16), (''code'', Str ''ShiftLeft''),
        (''key'', Str ''Shift''), (''text'', Str []),
        (''unmodifiedText'', Str []), (''autoRepeat'', Bool False),
        (''location'', Num 1), (''isKeypad'', Bool False)]],
     modifiers = 8, pressedKeys = {''ShiftLeft''}\<rparr>"
  by (simp add: shift_held_def eval_defs)

lemma alt_held_eq:
  "alt_held = \<lparr>effects = [Send ''Input.dispatchKeyEvent''
       [(''type'', Str ''rawKeyDown''), (''modifiers'', Num 1),
        (''windowsVirtualKeyCode'', Num 18), (''code'', Str ''AltLeft''),
        (''key'', Str ''Alt''), (''text'', Str []),
        (''unmodifiedText'', Str []), (''autoRepeat'', Bool False),
        (''location'', Num 1), (''isKeypad'', Bool False)]],
     modifiers = 1, pressedKeys = {''AltLeft''}\<rparr>"
  by (simp add: alt_held_def eval_defs)

lemma control_held_eq:
  "control_held = \<lparr>effects = [Send ''Input.dispatchKeyEvent''
       [(''type'', Str ''rawKeyDown''), (''modifiers'', Num 2),
        (''windowsVirtualKeyCode'', Num 17), (''code'', Str ''ControlLeft''),
        (''key'', Str ''Control''), (''text'', Str []),
        (''unmodifiedText'', Str []), (''autoRepeat'', Bool False),
        (''location'', Num 1), (''isKeypad'', Bool False)]],
     modifiers = 2, pressedKeys = {''ControlLeft''}\<rparr>"
  by (simp add: control_held_def eval_defs)

text \<open>An entry with a label and no shifted label resolves to that label in every state.\<close>

lemma keyDescriptionForString_label:
  assumes "keyDefinitions key = Some d" and "def_key d = Some label" and "def_shiftKey d = None"
  shows "\<exists>description. keyDescriptionForString keyDefinitions s key = Inr description
           \<and> desc_key description = label
           \<and> desc_code description = (case def_code d of Some v \<Rightarrow> v | None \<Rightarrow> [])"
proof -
  have "d \<noteq> empty_definition"
    using assms(2) by (auto simp: empty_definition_def)
  then show ?thesis
    using assms by (simp add: keyDescriptionForString_def Let_def)
qed

subsection \<open>Unknown key names\<close>

text \<open>
  Claim C3. For a key name with no entry in the table, \<^verbatim>\<open>down\<close>, \<^verbatim>\<open>up\<close> and
  \<^verbatim>\<open>press\<close> each raise \<^verbatim>\<open>PyppeteerError('Unknown key: ...')\<close> and return
  the state they were given: nothing is sent, and the modifiers and the pressed
  keys are as before.
\<close>

theorem unknown_key_raises_before_dispatch:
  assumes "keyDefinitions key = None"
  shows "down keyDefinitions key opts s = (Some (PyppeteerError (''Unknown key: '' @ key)), s)
       \<and> up keyDefinitions key s = (Some (PyppeteerError (''Unknown key: '' @ key)), s)
       \<and> press keyDefinitions key opts s = (Some (PyppeteerError (''Unknown key: '' @ key)), s)"
  using assms by (simp add: down_def up_def press_def keyDescriptionForString_absent)

theorem unknown_key_raises_before_dispatch_witness:
  "sample_layout ''Frobnicate'' = None
   \<and> down sample_layout ''Frobnicate'' no_options init
        = (Some (PyppeteerError ''Unknown key: Frobnicate''), init)
   \<and> up sample_layout ''Frobnicate'' init
        = (Some (PyppeteerError ''Unknown key: Frobnicate''), init)
   \<and> press sample_layout ''Frobnicate'' no_options init
        = (Some (PyppeteerError ''Unknown key: Frobnicate''), init)"
proof -
  have absent: "sample_layout ''Frobnicate'' = None"
    by (simp add: sample_layout_def)
  show ?thesis
    using absent unknown_key_raises_before_dispatch [of sample_layout "''Frobnicate''" no_options init]
    by simp
qed

subsection \<open>Releasing a key that is not pressed\<close>

text \<open>
  Claim C4. For a key name with a (non-empty) entry in the table whose hardware
  code is not in \<^verbatim>\<open>_pressedKeys\<close>, \<^verbatim>\<open>up\<close> fails with the \<^verbatim>\<open>KeyError\<close> of
  \<^verbatim>\<open>set.remove\<close> and sends nothing. The hardware code is the entry's
  \<^verbatim>\<open>code\<close>, or the empty string when the entry has none.
\<close>

theorem up_not_pressed_raises:
  assumes "keyDefinitions key = Some d" and "d \<noteq> empty_definition"
    and "(case def_code d of Some v \<Rightarrow> v | None \<Rightarrow> []) \<notin> pressedKeys s"
  shows "fst (up keyDefinitions key s) = Some (KeyError (case def_code d of Some v \<Rightarrow> v | None \<Rightarrow> []))
       \<and> effects (snd (up keyDefinitions key s)) = effects s"
  using assms by (simp add: up_def keyDescriptionForString_def Let_def)

theorem up_not_pressed_raises_witness:
  "sample_layout ''a'' = Some (empty_definition\<lparr>def_keyCode := Some 65, def_key := Some ''a'',
                def_code := Some ''KeyA''\<rparr>)
   \<and> empty_definition\<lparr>def_keyCode := Some 65, def_key := Some ''a'', def_code := Some ''KeyA''\<rparr>
        \<noteq> empty_definition
   \<and> ''KeyA'' \<notin> pressedKeys init
   \<and> fst (up sample_layout ''a'' init) = Some (KeyError ''KeyA'')
   \<and> effects (snd (up sample_layout ''a'' init)) = []"
proof -
  let ?d = "empty_definition\<lparr>def_keyCode := Some 65, def_key := Some ''a'', def_code := Some ''KeyA''\<rparr>"
  have entry: "sample_layout ''a'' = Some ?d"
    by (simp add: sample_layout_def)
  have nonempty: "?d \<noteq> empty_definition"
    by (simp add: empty_definition_def)
  have free: "(case def_code ?d of Some v \<Rightarrow> v | None \<Rightarrow> []) \<notin> pressedKeys init"
    by (simp add: init_def)
  show ?thesis
    using entry nonempty free up_not_pressed_raises [of sample_layout "''a''" ?d init]
    by (simp add: init_def)
qed

text \<open>
  Claim C10. When \<^verbatim>\<open>up\<close> is called for a key that resolves to a modifier label
  and whose hardware code is not in \<^verbatim>\<open>_pressedKeys\<close>, the call raises and sends
  nothing, but the state it leaves has the label's modifier bit cleared; if the
  bit was set before the call, the modifiers have changed.
\<close>

theorem up_clears_modifier_before_raising:
  assumes "keyDescriptionForString keyDefinitions s key = Inr description"
    and "desc_key description \<in> {''Alt'', ''Control'', ''Meta'', ''Shift''}"
    and "desc_code description \<notin> pressedKeys s"
  shows "up keyDefinitions key s =
           (Some (KeyError (desc_code description)),
            s\<lparr>modifiers := modifiers s AND NOT (modifierBit (desc_key description))\<rparr>)
       \<and> modifierBit (desc_key description) \<noteq> 0
       \<and> (modifiers s AND modifierBit (desc_key description) \<noteq> 0 \<longrightarrow>
            modifiers (snd (up keyDefinitions key s)) \<noteq> modifiers s)"
proof -
  have r: "up keyDefinitions key s =
           (Some (KeyError (desc_code description)),
            s\<lparr>modifiers := modifiers s AND NOT (modifierBit (desc_key description))\<rparr>)"
    using assms(1,3) by (rule up_missing)
  have b: "modifierBit (desc_key description) \<noteq> 0"
    using assms(2) by (auto simp: modifierBit_def)
  show ?thesis
    using r b by (simp add: and_not_eq_iff)
qed

theorem up_clears_modifier_before_raising_witness:
  "modifiers shift_held = 8 \<and> ''ShiftRight'' \<notin> pressedKeys shift_held
   \<and> up sample_layout ''ShiftRight'' shift_held
        = (Some (KeyError ''ShiftRight''), shift_held\<lparr>modifiers := 0\<rparr>)
   \<and> modifiers (snd (up sample_layout ''ShiftRight'' shift_held)) \<noteq> modifiers shift_held"
proof -
  define description where "description =
    \<lparr>desc_key = ''Shift'', desc_keyCode = 16, desc_code = ''ShiftRight'', desc_text = [],
     desc_location = 2\<rparr>"
  have res: "keyDescriptionForString sample_layout shift_held ''ShiftRight'' = Inr description"
    by (simp add: shift_held_eq description_def keyDescriptionForString_def sample_layout_def
        empty_definition_def Let_def)
  have label: "desc_key description \<in> {''Alt'', ''Control'', ''Meta'', ''Shift''}"
    by (simp add: description_def)
  have free: "desc_code description \<notin> pressedKeys shift_held"
    by (simp add: description_def shift_held_eq)
  have "modifiers shift_held = 8" "''ShiftRight'' \<notin> pressedKeys shift_held"
    by (simp_all add: shift_held_eq)
  then show ?thesis
    using up_clears_modifier_before_raising [OF res label free]
    by (simp add: description_def modifierBit_def)
qed

subsection \<open>The key-down event\<close>

text \<open>
  Claim C8. For a key name with a (non-empty) entry in the table, \<^verbatim>\<open>down\<close>
  returns normally and sends exactly one \<^verbatim>\<open>Input.dispatchKeyEvent\<close>. Its text is
  the \<^verbatim>\<open>text\<close> option when given and the description's text otherwise; its type
  is \<^verbatim>\<open>rawKeyDown\<close> exactly when that text is empty and \<^verbatim>\<open>keyDown\<close>
  otherwise; it carries the modifiers as they are after the call, the key code,
  the hardware code, the label, the text twice, the auto-repeat flag, the location
  and \<^verbatim>\<open>isKeypad\<close>, true exactly when the location is 3.
\<close>

theorem down_dispatches_one_key_event:
  assumes "keyDefinitions key = Some d" and "d \<noteq> empty_definition"
  shows "\<exists>description txt.
           keyDescriptionForString keyDefinitions s key = Inr description
         \<and> txt = (case opt_text opts of Some t \<Rightarrow> t | None \<Rightarrow> desc_text description)
         \<and> fst (down keyDefinitions key opts s) = None
         \<and> effects (snd (down keyDefinitions key opts s)) = effects s @
              [Send ''Input.dispatchKeyEvent''
                 [(''type'', Str (if txt = [] then ''rawKeyDown'' else ''keyDown'')),
                  (''modifiers'', Num (modifiers (snd (down keyDefinitions key opts s)))),
                  (''windowsVirtualKeyCode'', Num (desc_keyCode description)),
                  (''code'', Str (desc_code description)),
                  (''key'', Str (desc_key description)),
                  (''text'', Str txt),
                  (''unmodifiedText'', Str txt),
                  (''autoRepeat'', Bool (desc_key description \<in> pressedKeys s)),
                  (''location'', Num (desc_location description)),
                  (''isKeypad'', Bool (desc_location description = 3))]]"
proof -
  from assms obtain description
    where res: "keyDescriptionForString keyDefinitions s key = Inr description"
    using keyDescriptionForString_resolves_iff [of keyDefinitions s key] by blast
  show ?thesis
    using res by (simp add: down_resolved [OF res] split: option.splits)
qed

theorem down_dispatches_one_key_event_witness:
  "sample_layout ''Enter'' = Some (empty_definition\<lparr>def_keyCode := Some 13, def_key := Some ''Enter'',
                def_code := Some ''Enter'', def_text := Some [CHR 0x0D]\<rparr>)
   \<and> empty_definition\<lparr>def_keyCode := Some 13, def_key := Some ''Enter'',
                def_code := Some ''Enter'', def_text := Some [CHR 0x0D]\<rparr> \<noteq> empty_definition
   \<and> fst (down sample_layout ''Enter'' no_options init) = None
   \<and> effects (snd (down sample_layout ''Enter'' no_options init)) =
        [Send ''Input.dispatchKeyEvent''
           [(''type'', Str ''keyDown''),
            (''modifiers'', Num 0),
            (''windowsVirtualKeyCode'', Num 13),
            (''code'', Str ''Enter''),
            (''key'', Str ''Enter''),
            (''text'', Str [CHR 0x0D]),
            (''unmodifiedText'', Str [CHR 0x0D]),
            (''autoRepeat'', Bool False),
            (''location'', Num 0),
            (''isKeypad'', Bool False)]]"
proof -
  let ?d = "empty_definition\<lparr>def_keyCode := Some 13, def_key := Some ''Enter'',
                def_code := Some ''Enter'', def_text := Some [CHR 0x0D]\<rparr>"
  have entry: "sample_layout ''Enter'' = Some ?d"
    by (simp add: sample_layout_def)
  have nonempty: "?d \<noteq> empty_definition"
    by (simp add: empty_definition_def)
  have res: "keyDescriptionForString sample_layout init ''Enter'' =
      Inr \<lparr>desc_key = ''Enter'', desc_keyCode = 13, desc_code = ''Enter'',
           desc_text = [CHR 0x0D], desc_location = 0\<rparr>"
    by (simp add: keyDescriptionForString_def sample_layout_def empty_definition_def init_def Let_def)
  have m: "modifiers (snd (down sample_layout ''Enter'' no_options init)) = 0"
    using down_resolved [OF res, of no_options] by (simp add: modifierBit_def init_def)
  from down_dispatches_one_key_event [of sample_layout "''Enter''" ?d init no_options] entry nonempty
  obtain description emitted where
    "keyDescriptionForString sample_layout init ''Enter'' = Inr description"
    "emitted = (case opt_text no_options of Some t \<Rightarrow> t | None \<Rightarrow> desc_text description)"
    "fst (down sample_layout ''Enter'' no_options init) = None"
    "effects (snd (down sample_layout ''Enter'' no_options init)) = effects init @
              [Send ''Input.dispatchKeyEvent''
                 [(''type'', Str (if emitted = [] then ''rawKeyDown'' else ''keyDown'')),
                  (''modifiers'', Num (modifiers (snd (down sample_layout ''Enter'' no_options init)))),
                  (''windowsVirtualKeyCode'', Num (desc_keyCode description)),
                  (''code'', Str (desc_code description)),
                  (''key'', Str (desc_key description)),
                  (''text'', Str emitted),
                  (''unmodifiedText'', Str emitted),
                  (''autoRepeat'', Bool (desc_key description \<in> pressedKeys init)),
                  (''location'', Num (desc_location description)),
                  (''isKeypad'', Bool (desc_location description = 3))]]"
    by blast
  then show ?thesis
    using entry nonempty res m by (simp add: no_options_def init_def)
qed

subsection \<open>Auto-repeat\<close>

text \<open>
  Claim C1. A first \<^verbatim>\<open>down\<close> with no key pressed sends \<^verbatim>\<open>autoRepeat\<close> false, and a
  second \<^verbatim>\<open>down\<close> for the same key, still held, should send \<^verbatim>\<open>autoRepeat\<close> true.
  The code tests the label against \<^verbatim>\<open>_pressedKeys\<close>, which holds hardware codes:
  for the letter \<^verbatim>\<open>a\<close> (label \<^verbatim>\<open>a\<close>, code \<^verbatim>\<open>KeyA\<close>) both events carry
  \<^verbatim>\<open>autoRepeat\<close> false.
\<close>

theorem down_twice_autoRepeat:
  "effects (snd (down sample_layout ''a'' no_options
                   (snd (down sample_layout ''a'' no_options init)))) =
     [Send ''Input.dispatchKeyEvent''
        [(''type'', Str ''keyDown''), (''modifiers'', Num 0),
         (''windowsVirtualKeyCode'', Num 65), (''code'', Str ''KeyA''),
         (''key'', Str ''a''), (''text'', Str ''a''), (''unmodifiedText'', Str ''a''),
         (''autoRepeat'', Bool False), (''location'', Num 0), (''isKeypad'', Bool False)],
      Send ''Input.dispatchKeyEvent''
        [(''type'', Str ''keyDown''), (''modifiers'', Num 0),
         (''windowsVirtualKeyCode'', Num 65), (''code'', Str ''KeyA''),
         (''key'', Str ''a''), (''text'', Str ''a''), (''unmodifiedText'', Str ''a''),
         (''autoRepeat'', Bool False), (''location'', Num 0), (''isKeypad'', Bool False)]]"
  by (simp add: down_def keyDescriptionForString_def sample_layout_def empty_definition_def
        init_def no_options_def send_def modifierBit_def Let_def)

subsection \<open>What a description depends on\<close>

text \<open>
  Claim C2, as stated, fails: with the same Shift bit, the description of
  \<^verbatim>\<open>a\<close> has text \<^verbatim>\<open>a\<close> in the initial state and empty text while Alt is held.
\<close>

theorem keyDescriptionForString_alt_counterexample:
  "modifiers init AND 8 = modifiers alt_held AND 8
   \<and> keyDescriptionForString sample_layout init ''a''
        = Inr \<lparr>desc_key = ''a'', desc_keyCode = 65, desc_code = ''KeyA'', desc_text = ''a'',
               desc_location = 0\<rparr>
   \<and> keyDescriptionForString sample_layout alt_held ''a''
        = Inr \<lparr>desc_key = ''a'', desc_keyCode = 65, desc_code = ''KeyA'', desc_text = [],
               desc_location = 0\<rparr>"
  by (simp add: alt_held_eq keyDescriptionForString_def sample_layout_def empty_definition_def
        init_def Let_def)

text \<open>
  Claim C2, amended. The result of \<^verbatim>\<open>_keyDescriptionForString\<close> (a description or
  the error) is a function of the key name, of whether the Shift bit is set and of
  whether any other bit of the modifiers is set: two states that agree on these
  give identical results, whatever their pressed keys and effects; and when a bit
  other than Shift's is set, the text of the description is empty. The function
  returns no state, so it mutates nothing and sends nothing.
\<close>

theorem keyDescriptionForString_depends_on:
  assumes "(modifiers s AND 8 = 0) = (modifiers s' AND 8 = 0)"
    and "(modifiers s AND NOT 8 = 0) = (modifiers s' AND NOT 8 = 0)"
  shows "keyDescriptionForString keyDefinitions s key = keyDescriptionForString keyDefinitions s' key
       \<and> (\<forall>description. modifiers s AND NOT 8 \<noteq> 0 \<longrightarrow>
             keyDescriptionForString keyDefinitions s key = Inr description \<longrightarrow>
             desc_text description = [])"
proof -
  have shift: "(modifiers s AND 8 \<noteq> 0) = (modifiers s' AND 8 \<noteq> 0)"
    using assms(1) by simp
  have other: "(modifiers s AND NOT 8 \<noteq> 0) = (modifiers s' AND NOT 8 \<noteq> 0)"
    using assms(2) by simp
  have same: "keyDescriptionForString keyDefinitions s key = keyDescriptionForString keyDefinitions s' key"
    unfolding keyDescriptionForString_def Let_def shift other ..
  have empty: "desc_text description = []"
    if "modifiers s AND NOT 8 \<noteq> 0"
      and "keyDescriptionForString keyDefinitions s key = Inr description" for description
    using that by (auto simp: keyDescriptionForString_def Let_def split: option.splits if_splits)
  show ?thesis
    using same empty by blast
qed

theorem keyDescriptionForString_depends_on_witness:
  "(modifiers alt_held AND 8 = 0) = (modifiers control_held AND 8 = 0)
   \<and> (modifiers alt_held AND NOT 8 = 0) = (modifiers control_held AND NOT 8 = 0)
   \<and> modifiers alt_held \<noteq> modifiers control_held
   \<and> pressedKeys alt_held \<noteq> pressedKeys control_held
   \<and> modifiers alt_held AND NOT 8 \<noteq> 0
   \<and> keyDescriptionForString sample_layout alt_held ''a''
        = Inr \<lparr>desc_key = ''a'', desc_keyCode = 65, desc_code = ''KeyA'', desc_text = [],
               desc_location = 0\<rparr>
   \<and> keyDescriptionForString sample_layout control_held ''a''
        = Inr \<lparr>desc_key = ''a'', desc_keyCode = 65, desc_code = ''KeyA'', desc_text = [],
               desc_location = 0\<rparr>"
proof -
  have h1: "(modifiers alt_held AND 8 = 0) = (modifiers control_held AND 8 = 0)"
    and h2: "(modifiers alt_held AND NOT 8 = 0) = (modifiers control_held AND NOT 8 = 0)"
    and h3: "modifiers alt_held \<noteq> modifiers control_held"
    and h4: "pressedKeys alt_held \<noteq> pressedKeys control_held"
    and h5: "modifiers alt_held AND NOT 8 \<noteq> 0"
    by (simp_all add: alt_held_eq control_held_eq)
  obtain description where res: "keyDescriptionForString sample_layout alt_held ''a'' = Inr description"
    and fields: "desc_key description = ''a''" "desc_keyCode description = 65"
      "desc_code description = ''KeyA''" "desc_location description = 0"
    by (simp add: alt_held_eq keyDescriptionForString_def sample_layout_def empty_definition_def Let_def)
  from keyDescriptionForString_depends_on [OF h1 h2, of sample_layout "''a''"] h5 res
  have same: "keyDescriptionForString sample_layout control_held ''a'' = Inr description"
    and empty: "desc_text description = []"
    by simp_all
  have "description = \<lparr>desc_key = ''a'', desc_keyCode = 65, desc_code = ''KeyA'', desc_text = [],
               desc_location = 0\<rparr>"
    using fields empty by simp
  then show ?thesis
    using h1 h2 h3 h4 h5 res same by simp
qed

subsection \<open>Pressing and releasing a modifier key\<close>

text \<open>
  Claim C6, as stated, fails: with Shift already held (modifiers 8),
  \<^verbatim>\<open>down('Shift')\<close> followed by \<^verbatim>\<open>up('Shift')\<close> both return normally and leave
  the modifiers at 0, not at their value before the \<^verbatim>\<open>down\<close>.
\<close>

theorem modifier_down_up_counterexample:
  "modifiers shift_held = 8
   \<and> fst (down sample_layout ''Shift'' no_options shift_held) = None
   \<and> fst (up sample_layout ''Shift'' (snd (down sample_layout ''Shift'' no_options shift_held))) = None
   \<and> modifiers (snd (up sample_layout ''Shift''
                        (snd (down sample_layout ''Shift'' no_options shift_held)))) = 0"
  by (simp add: shift_held_eq eval_defs)

text \<open>
  Claim C6, amended. For a key whose entry has the label Alt, Control, Meta or
  Shift and no shifted label, \<^verbatim>\<open>down\<close> followed by \<^verbatim>\<open>up\<close> for the same key both
  return normally and leave the modifiers as before the \<^verbatim>\<open>down\<close> with the label's
  bit (1, 2, 4 or 8) cleared and the other bits unchanged; the modifiers are
  restored to their value before the \<^verbatim>\<open>down\<close> exactly when that bit was clear then.
\<close>

theorem modifier_down_up_clears_bit:
  assumes "keyDefinitions key = Some d" and "def_key d = Some label" and "def_shiftKey d = None"
    and "label \<in> {''Alt'', ''Control'', ''Meta'', ''Shift''}"
  shows "fst (down keyDefinitions key opts s) = None
       \<and> fst (up keyDefinitions key (snd (down keyDefinitions key opts s))) = None
       \<and> modifiers (snd (up keyDefinitions key (snd (down keyDefinitions key opts s))))
            = modifiers s AND NOT (modifierBit label)
       \<and> modifierBit label \<in> {1, 2, 4, 8}
       \<and> (modifiers (snd (up keyDefinitions key (snd (down keyDefinitions key opts s)))) = modifiers s
            \<longleftrightarrow> modifiers s AND modifierBit label = 0)"
proof -
  define c where "c = (case def_code d of Some v \<Rightarrow> v | None \<Rightarrow> [])"
  define s1 where "s1 = snd (down keyDefinitions key opts s)"
  obtain description where res: "keyDescriptionForString keyDefinitions s key = Inr description"
    and k: "desc_key description = label" and cd: "desc_code description = c"
    using keyDescriptionForString_label [of keyDefinitions key d label s] assms(1-3) c_def by blast
  have d1: "fst (down keyDefinitions key opts s) = None"
    and m1: "modifiers s1 = modifiers s OR modifierBit label"
    and p1: "c \<in> pressedKeys s1"
    by (simp_all add: s1_def down_resolved [OF res] k cd)
  obtain description' where res': "keyDescriptionForString keyDefinitions s1 key = Inr description'"
    and k': "desc_key description' = label" and cd': "desc_code description' = c"
    using keyDescriptionForString_label [of keyDefinitions key d label s1] assms(1-3) c_def by blast
  have p1': "desc_code description' \<in> pressedKeys s1"
    using p1 cd' by simp
  have u: "fst (up keyDefinitions key s1) = None"
    and m2: "modifiers (snd (up keyDefinitions key s1)) = modifiers s AND NOT (modifierBit label)"
    by (simp_all add: up_pressed [OF res' p1'] k' m1 and_not_or)
  have b: "modifierBit label \<in> {1, 2, 4, 8}"
    using assms(4) by (auto simp: modifierBit_def)
  show ?thesis
    using d1 u m2 b unfolding s1_def by (simp add: and_not_eq_iff)
qed

theorem modifier_down_up_clears_bit_witness:
  "sample_layout ''Shift'' = Some (empty_definition\<lparr>def_keyCode := Some 16, def_key := Some ''Shift'',
                def_code := Some ''ShiftLeft'', def_location := Some 1\<rparr>)
   \<and> fst (down sample_layout ''Shift'' no_options alt_held) = None
   \<and> fst (up sample_layout ''Shift'' (snd (down sample_layout ''Shift'' no_options alt_held))) = None
   \<and> modifiers alt_held = 1
   \<and> modifiers (snd (down sample_layout ''Shift'' no_options alt_held)) = 9
   \<and> modifiers (snd (up sample_layout ''Shift''
                        (snd (down sample_layout ''Shift'' no_options alt_held)))) = 1"
proof -
  let ?d = "empty_definition\<lparr>def_keyCode := Some 16, def_key := Some ''Shift'',
                def_code := Some ''ShiftLeft'', def_location := Some 1\<rparr>"
  have entry: "sample_layout ''Shift'' = Some ?d"
    by (simp add: sample_layout_def)
  have label: "def_key ?d = Some ''Shift''" and noshift: "def_shiftKey ?d = None"
    by (simp_all add: empty_definition_def)
  have member: "''Shift'' \<in> {''Alt'', ''Control'', ''Meta'', ''Shift''}"
    by simp
  have m: "modifiers alt_held = 1"
    by (simp add: alt_held_eq)
  have m1: "modifiers (snd (down sample_layout ''Shift'' no_options alt_held)) = 9"
    by (simp add: alt_held_eq eval_defs)
  show ?thesis
    using entry m m1
      modifier_down_up_clears_bit [of sample_layout "''Shift''" ?d "''Shift''" no_options alt_held]
    by (simp add: empty_definition_def modifierBit_def)
qed

subsection \<open>Typing text\<close>

text \<open>Without an entry named \<^verbatim>\<open>char\<close> the loop sends every character.\<close>

lemma type_loop_sendCharacter:
  assumes "keyDefinitions ''char'' = None" and "delay \<noteq> 0"
  shows "type_loop keyDefinitions delay txt s =
     (None, s\<lparr>effects := effects s @ concat (map (\<lambda>c.
        [Send ''Input.dispatchKeyEvent''
           [(''type'', Str ''char''), (''modifiers'', Num (modifiers s)),
            (''text'', Str [c]), (''key'', Str [c]), (''unmodifiedText'', Str [c])],
         Sleep delay]) txt)\<rparr>)"
  using assms
proof (induction "txt" arbitrary: s)
  case Nil
  then show ?case by simp
next
  case (Cons c cs)
  then show ?case
    by (simp add: sendCharacter_def send_def sleep_def)
qed

text \<open>
  Claim C7. When the table has no entry named \<^verbatim>\<open>char\<close> and the delay option is
  \<open>d > 0\<close>, \<^verbatim>\<open>type\<close> returns normally and its effects are, for each character
  of the text in order, one \<^verbatim>\<open>char\<close> event for that character followed by one
  pause of \<open>d\<close>; there is no key-down or key-up event, and the modifiers and the
  pressed keys are unchanged.
\<close>

theorem type_without_char_entry:
  assumes "keyDefinitions ''char'' = None" and "opt_delay opts = Some d" and "0 < d"
  shows "type_text keyDefinitions txt opts s =
     (None, s\<lparr>effects := effects s @ concat (map (\<lambda>c.
        [Send ''Input.dispatchKeyEvent''
           [(''type'', Str ''char''), (''modifiers'', Num (modifiers s)),
            (''text'', Str [c]), (''key'', Str [c]), (''unmodifiedText'', Str [c])],
         Sleep d]) txt)\<rparr>)"
  using assms by (simp add: type_text_def truthy_delay_def get_delay_def type_loop_sendCharacter)

theorem type_without_char_entry_witness:
  "sample_layout ''char'' = None
   \<and> opt_delay (no_options\<lparr>opt_delay := Some 10\<rparr>) = Some 10 \<and> (0::int) < 10
   \<and> type_text sample_layout ''Hi'' (no_options\<lparr>opt_delay := Some 10\<rparr>) init =
     (None, init\<lparr>effects :=
        [Send ''Input.dispatchKeyEvent''
           [(''type'', Str ''char''), (''modifiers'', Num 0),
            (''text'', Str ''H''), (''key'', Str ''H''), (''unmodifiedText'', Str ''H'')],
         Sleep 10,
         Send ''Input.dispatchKeyEvent''
           [(''type'', Str ''char''), (''modifiers'', Num 0),
            (''text'', Str ''i''), (''key'', Str ''i''), (''unmodifiedText'', Str ''i'')],
         Sleep 10]\<rparr>)"
proof -
  have absent: "sample_layout ''char'' = None"
    by (simp add: sample_layout_def)
  have d: "opt_delay (no_options\<lparr>opt_delay := Some 10\<rparr>) = Some 10"
    by simp
  show ?thesis
    using absent type_without_char_entry [of sample_layout "no_options\<lparr>opt_delay := Some 10\<rparr>" 10 "''Hi''" init]
    by (simp add: init_def)
qed

subsection \<open>Tapping\<close>

text \<open>
  Claim C9. For all coordinates, \<^verbatim>\<open>tap\<close> sends exactly two touch events: a
  \<^verbatim>\<open>touchStart\<close> with the single point \<open>(round x, round y)\<close> and the modifiers,
  then a \<^verbatim>\<open>touchEnd\<close> with no point and the modifiers; the rest of the state is
  unchanged, and the events depend on nothing but the coordinates and the modifiers.
\<close>

theorem tap_two_events:
  "tap x y s = s\<lparr>effects := effects s @
      [Send ''Input.dispatchTouchEvent''
         [(''type'', Str ''touchStart''),
          (''touchPoints'', Arr [Obj [(''x'', Num (py_round x)), (''y'', Num (py_round y))]]),
          (''modifiers'', Num (modifiers s))],
       Send ''Input.dispatchTouchEvent''
         [(''type'', Str ''touchEnd''),
          (''touchPoints'', Arr []),
          (''modifiers'', Num (modifiers s))]]\<rparr>"
  by (simp add: tap_def send_def Let_def)

subsection \<open>Moving the mouse\<close>

text \<open>\<open>ilog2\<close> is the integer part of the binary logarithm.\<close>

lemma two_power_le_of_int:
  "(2::int) ^ k \<le> n \<Longrightarrow> (2::rat) ^ k \<le> of_int n"
  by simp

lemma of_int_le_two_power:
  "n \<le> (2::int) ^ k \<Longrightarrow> (of_int n :: rat) \<le> 2 ^ k"
  by simp

lemma inverse_le_swap:
  "1 / q \<le> p \<Longrightarrow> 0 < q \<Longrightarrow> 0 < p \<Longrightarrow> 1 / p \<le> (q::rat)"
  by (simp add: field_simps)

lemma inverse_less_swap:
  "p < 1 / q \<Longrightarrow> 0 < q \<Longrightarrow> 0 < p \<Longrightarrow> q < 1 / (p::rat)"
  by (simp add: field_simps)

lemma ilog2_bounds:
  assumes "0 < q"
  shows "pow2 (ilog2 q) \<le> q \<and> q < pow2 (ilog2 q + 1)"
proof (cases "1 \<le> q")
  case True
  define n where "n = \<lfloor>q\<rfloor>"
  have n: "1 \<le> n" "of_int n \<le> q" "q < of_int (n + 1)"
    using True floor_correct [of q] by (simp_all add: n_def le_floor_iff)
  have b: "2 ^ nat (bitlen n - 1) \<le> n" "n + 1 \<le> 2 ^ nat (bitlen n)"
    using bitlen_bounds [of n] n(1) by simp_all
  have pos: "1 \<le> bitlen n"
    using n(1) bitlen_eq_zero_iff [of n] bitlen_nonneg [of n] by (cases "bitlen n = 0") auto
  have lo: "(2::rat) ^ nat (bitlen n - 1) \<le> q"
    by (rule order_trans [OF two_power_le_of_int [OF b(1)] n(2)])
  have hi: "q < (2::rat) ^ nat (bitlen n)"
    by (rule less_le_trans [OF n(3) of_int_le_two_power [OF b(2)]])
  have e: "ilog2 q = bitlen n - 1"
    using True by (simp add: ilog2_def n_def)
  show ?thesis
    unfolding e using lo hi pos by (simp add: pow2_def)
next
  case False
  define c where "c = \<lceil>1 / q\<rceil>"
  define j where "j = bitlen (c - 1)"
  have inv: "1 < 1 / q"
    using False assms by simp
  have c: "2 \<le> c" "1 / q \<le> of_int c" "of_int (c - 1) < 1 / q"
    using inv ceiling_correct [of "1 / q"] by (simp_all add: c_def less_ceiling_iff)
  have b: "2 ^ nat (j - 1) \<le> c - 1" "c \<le> 2 ^ nat j"
    using bitlen_bounds [of "c - 1"] c(1) by (simp_all add: j_def)
  have pos: "1 \<le> j"
    using c(1) bitlen_eq_zero_iff [of "c - 1"] bitlen_nonneg [of "c - 1"]
    by (cases "bitlen (c - 1) = 0") (auto simp: j_def)
  have up: "1 / q \<le> (2::rat) ^ nat j"
    by (rule order_trans [OF c(2) of_int_le_two_power [OF b(2)]])
  have down: "(2::rat) ^ nat (j - 1) < 1 / q"
    by (rule le_less_trans [OF two_power_le_of_int [OF b(1)] c(3)])
  have lo: "1 / (2::rat) ^ nat j \<le> q"
    by (rule inverse_le_swap [OF up assms]) simp
  have hi: "q < 1 / (2::rat) ^ nat (j - 1)"
    by (rule inverse_less_swap [OF down assms]) simp
  have e: "ilog2 q = - j"
    using False by (simp add: ilog2_def c_def j_def)
  show ?thesis
  proof (cases "j = 1")
    case True
    then show ?thesis
      unfolding e using lo hi by (simp add: pow2_def)
  next
    case False
    then have "\<not> 0 \<le> - j + 1" "nat (- (- j + 1)) = nat (j - 1)" "\<not> 0 \<le> - j"
      using pos by simp_all
    then show ?thesis
      unfolding e using lo hi by (simp add: pow2_def)
  qed
qed

text \<open>Evaluating the floating-point functions on numerals.\<close>

lemma floor_rat_numeral_div:
  "\<lfloor>(numeral a :: rat) / numeral b\<rfloor> = numeral a div numeral b"
  "\<lfloor>- ((numeral a :: rat) / numeral b)\<rfloor> = (- numeral a) div numeral b"
  "\<lfloor>(1 :: rat) / numeral b\<rfloor> = 1 div numeral b"
  using floor_divide_of_int_eq [of "numeral a" "numeral b", where ?'a = rat]
    floor_divide_of_int_eq [of "- numeral a" "numeral b", where ?'a = rat]
    floor_divide_of_int_eq [of 1 "numeral b", where ?'a = rat]
  by simp_all

lemma ceiling_rat_numeral_div:
  "\<lceil>(numeral a :: rat) / numeral b\<rceil> = - ((- numeral a) div numeral b)"
  unfolding ceiling_def using floor_rat_numeral_div(2) [of a b] by simp

lemmas float_eval = round_binary64_def ilog2_def pow2_def py_round_def Let_def compute_bitlen
  floor_rat_numeral_div ceiling_rat_numeral_div


lemmas interpolate_eval = interpolate_def truediv_def lerp_def fsub_def round_float_def float_eval

text \<open>
  Four roundings: one, the float nearest to a tenth, the least magnitude that
  overflows, and a value that underflows to zero.
\<close>

lemma round_binary64_examples:
  "round_binary64 1 = Finite 1"
  "round_binary64 (1 / 10) = Finite (3602879701896397 / 36028797018963968)"
  "round_binary64 (2 ^ 1024 - 2 ^ 970) = Inf True"
  "round_binary64 (1 / 2 ^ 1075) = Finite 0"
  by (simp_all add: float_eval)

lemma truediv_self:
  assumes "1 \<le> n"
  shows "truediv n n = Inr (Finite 1)"
proof -
  have "(of_int n :: rat) / of_int n = 1"
    using assms by simp
  then show ?thesis
    using assms by (simp add: truediv_def round_binary64_examples(1))
qed

text \<open>The loop sends one event for each step whose two roundings succeed.\<close>

lemma move_loop_events:
  assumes "\<forall>i\<in>set js. interpolate fromX (mouse_x m) i steps = Inr (cx i)
                       \<and> interpolate fromY (mouse_y m) i steps = Inr (cy i)"
  shows "move_loop m fromX fromY steps js s =
     (None, s\<lparr>effects := effects s @ map (\<lambda>i.
        Send ''Input.dispatchMouseEvent''
          [(''type'', Str ''mouseMoved''),
           (''button'', Str (mouse_button m)),
           (''x'', Num (cx i)),
           (''y'', Num (cy i)),
           (''modifiers'', Num (modifiers s))]) js\<rparr>)"
  using assms
proof (induction js arbitrary: s)
  case Nil
  then show ?case by simp
next
  case (Cons i rest)
  then show ?case
    by (simp add: send_def)
qed

lemma move_sets_position:
  "fst (snd (move x y opts (m, s))) = m\<lparr>mouse_x := x, mouse_y := y\<rparr>"
  by (simp add: move_def Let_def split: prod.splits)

lemma far_right_eq:
  "far_right = (\<lparr>mouse_x = Finite 10000000000000000, mouse_y = Finite 0, mouse_button = ''none''\<rparr>,
     init\<lparr>effects := [Send ''Input.dispatchMouseEvent''
          [(''type'', Str ''mouseMoved''), (''button'', Str ''none''),
           (''x'', Num 10000000000000000), (''y'', Num 0), (''modifiers'', Num 0)]]\<rparr>)"
proof -
  have "interpolate (Finite 0) (Finite 10000000000000000) 1 1 = Inr 10000000000000000"
    "interpolate (Finite 0) (Finite 0) 1 1 = Inr 0"
    by (simp_all add: interpolate_eval)
  then show ?thesis
    by (simp add: far_right_def move_def get_steps_def no_move_options_def mouse_init_def
        init_def send_def Let_def)
qed

text \<open>
  The arithmetic can raise: \<^verbatim>\<open>move(float('inf'), 0)\<close> from the initial position
  stores the target and raises \<^verbatim>\<open>OverflowError\<close> in \<^verbatim>\<open>round\<close>, before any event is
  sent.
\<close>

lemma move_overflow_example:
  "move (Inf True) (Finite 0) no_move_options (mouse_init, init) =
     (Some OverflowError, mouse_init\<lparr>mouse_x := Inf True, mouse_y := Finite 0\<rparr>, init)"
proof -
  have "interpolate (Finite 0) (Inf True) 1 1 = Inl OverflowError"
    by (simp add: interpolate_eval)
  then show ?thesis
    by (simp add: move_def get_steps_def no_move_options_def mouse_init_def Let_def)
qed

text \<open>
  Claim C5, as stated, fails: from the position reached by \<^verbatim>\<open>move(1e16, 0)\<close>, the
  call \<^verbatim>\<open>move(1, 0)\<close> with the default single step returns normally and sends one
  event whose x coordinate is 0, while \<^verbatim>\<open>round(1)\<close> is 1: in binary64,
  \<^verbatim>\<open>1e16 + (1 - 1e16) * 1.0\<close> is 0.
\<close>

theorem move_last_event_counterexample:
  "mouse_x (fst far_right) = Finite 10000000000000000
   \<and> fst (move (Finite 1) (Finite 0) no_move_options far_right) = None
   \<and> effects (snd (snd (move (Finite 1) (Finite 0) no_move_options far_right))) =
        effects (snd far_right) @
        [Send ''Input.dispatchMouseEvent''
           [(''type'', Str ''mouseMoved''), (''button'', Str ''none''),
            (''x'', Num 0), (''y'', Num 0), (''modifiers'', Num 0)]]
   \<and> round_float (Finite 1) = Inr 1"
proof -
  have "interpolate (Finite 10000000000000000) (Finite 1) 1 1 = Inr 0"
    "interpolate (Finite 0) (Finite 0) 1 1 = Inr 0"
    "round_float (Finite 1) = Inr 1"
    by (simp_all add: interpolate_eval)
  then show ?thesis
    by (simp add: far_right_eq move_def get_steps_def no_move_options_def
        init_def send_def Let_def)
qed

text \<open>
  Claim C5, amended. \<^verbatim>\<open>move\<close> sets the stored position to the target in every
  case. When \<open>n \<ge> 1\<close> steps are asked for and the arithmetic raises on none of the
  interpolated values, \<^verbatim>\<open>move\<close> returns normally and sends exactly \<open>n\<close>
  \<^verbatim>\<open>mouseMoved\<close> events in order, the \<open>i\<close>-th carrying
  \<^verbatim>\<open>round(origin + (target - origin) * (i / n))\<close> for each coordinate, computed in
  binary64 arithmetic, with the button and the modifiers. The \<open>n\<close>-th x coordinate
  is \<^verbatim>\<open>round(x)\<close> whenever \<^verbatim>\<open>origin + (x - origin) * 1.0\<close> evaluates to \<open>x\<close> itself,
  and likewise for y.
\<close>

theorem move_dispatches_steps:
  "fst (snd (move x y opts (m, s))) = m\<lparr>mouse_x := x, mouse_y := y\<rparr>
   \<and> (get_steps opts = n \<and> 1 \<le> n
        \<and> (\<forall>i\<in>{1..n}. interpolate (mouse_x m) x i n = Inr (cx i)
                       \<and> interpolate (mouse_y m) y i n = Inr (cy i))
      \<longrightarrow> move x y opts (m, s) =
            (None, m\<lparr>mouse_x := x, mouse_y := y\<rparr>,
             s\<lparr>effects := effects s @ map (\<lambda>i.
                Send ''Input.dispatchMouseEvent''
                  [(''type'', Str ''mouseMoved''),
                   (''button'', Str (mouse_button m)),
                   (''x'', Num (cx i)),
                   (''y'', Num (cy i)),
                   (''modifiers'', Num (modifiers s))]) [1..n]\<rparr>)
          \<and> length (effects (snd (snd (move x y opts (m, s))))) = length (effects s) + nat n
          \<and> (lerp (mouse_x m) x (Finite 1) = x \<longrightarrow> round_float x = Inr (cx n))
          \<and> (lerp (mouse_y m) y (Finite 1) = y \<longrightarrow> round_float y = Inr (cy n)))"
proof (intro conjI impI)
  show "fst (snd (move x y opts (m, s))) = m\<lparr>mouse_x := x, mouse_y := y\<rparr>"
    by (rule move_sets_position)
next
  assume h: "get_steps opts = n \<and> 1 \<le> n
        \<and> (\<forall>i\<in>{1..n}. interpolate (mouse_x m) x i n = Inr (cx i)
                       \<and> interpolate (mouse_y m) y i n = Inr (cy i))"
  then have steps: "get_steps opts = n" and pos: "1 \<le> n"
    and coords: "\<forall>i\<in>set [1..n]. interpolate (mouse_x m) (mouse_x (m\<lparr>mouse_x := x, mouse_y := y\<rparr>)) i n = Inr (cx i)
                       \<and> interpolate (mouse_y m) (mouse_y (m\<lparr>mouse_x := x, mouse_y := y\<rparr>)) i n = Inr (cy i)"
    by simp_all
  show r: "move x y opts (m, s) =
            (None, m\<lparr>mouse_x := x, mouse_y := y\<rparr>,
             s\<lparr>effects := effects s @ map (\<lambda>i.
                Send ''Input.dispatchMouseEvent''
                  [(''type'', Str ''mouseMoved''),
                   (''button'', Str (mouse_button m)),
                   (''x'', Num (cx i)),
                   (''y'', Num (cy i)),
                   (''modifiers'', Num (modifiers s))]) [1..n]\<rparr>)"
    using move_loop_events [OF coords, of s] by (simp add: move_def steps Let_def)
  show "length (effects (snd (snd (move x y opts (m, s))))) = length (effects s) + nat n"
    using pos by (simp add: r)
  have last: "interpolate (mouse_x m) x n n = Inr (cx n)" "interpolate (mouse_y m) y n n = Inr (cy n)"
    using h by simp_all
  show "round_float x = Inr (cx n)" if "lerp (mouse_x m) x (Finite 1) = x"
    using last(1) that by (simp add: interpolate_def truediv_self [OF pos])
  show "round_float y = Inr (cy n)" if "lerp (mouse_y m) y (Finite 1) = y"
    using last(2) that by (simp add: interpolate_def truediv_self [OF pos])
qed

theorem move_dispatches_steps_witness:
  "get_steps \<lparr>opt_steps = Some 5\<rparr> = 5 \<and> (1::int) \<le> 5
   \<and> (\<forall>i\<in>{1..5}. interpolate (mouse_x mouse_init) (Finite 10) i 5 = Inr (2 * i)
                   \<and> interpolate (mouse_y mouse_init) (Finite 20) i 5 = Inr (4 * i))
   \<and> lerp (mouse_x mouse_init) (Finite 10) (Finite 1) = Finite 10
   \<and> lerp (mouse_y mouse_init) (Finite 20) (Finite 1) = Finite 20
   \<and> move (Finite 10) (Finite 20) \<lparr>opt_steps = Some 5\<rparr> (mouse_init, init) =
       (None, mouse_init\<lparr>mouse_x := Finite 10, mouse_y := Finite 20\<rparr>,
        init\<lparr>effects :=
          [Send ''Input.dispatchMouseEvent''
             [(''type'', Str ''mouseMoved''), (''button'', Str ''none''),
              (''x'', Num 2), (''y'', Num 4), (''modifiers'', Num 0)],
           Send ''Input.dispatchMouseEvent''
             [(''type'', Str ''mouseMoved''), (''button'', Str ''none''),
              (''x'', Num 4), (''y'', Num 8), (''modifiers'', Num 0)],
           Send ''Input.dispatchMouseEvent''
             [(''type'', Str ''mouseMoved''), (''button'', Str ''none''),
              (''x'', Num 6), (''y'', Num 12), (''modifiers'', Num 0)],
           Send ''Input.dispatchMouseEvent''
             [(''type'', Str ''mouseMoved''), (''button'', Str ''none''),
              (''x'', Num 8), (''y'', Num 16), (''modifiers'', Num 0)],
           Send ''Input.dispatchMouseEvent''
             [(''type'', Str ''mouseMoved''), (''button'', Str ''none''),
              (''x'', Num 10), (''y'', Num 20), (''modifiers'', Num 0)]]\<rparr>)
   \<and> round_float (Finite 10) = Inr 10 \<and> round_float (Finite 20) = Inr 20"
proof -
  have steps: "get_steps \<lparr>opt_steps = Some 5\<rparr> = 5"
    by (simp add: get_steps_def)
  have xs: "interpolate (Finite 0) (Finite 10) 1 5 = Inr 2"
    "interpolate (Finite 0) (Finite 10) 2 5 = Inr 4"
    "interpolate (Finite 0) (Finite 10) 3 5 = Inr 6"
    "interpolate (Finite 0) (Finite 10) 4 5 = Inr 8"
    "interpolate (Finite 0) (Finite 10) 5 5 = Inr 10"
    by (simp_all add: interpolate_eval)
  have ys: "interpolate (Finite 0) (Finite 20) 1 5 = Inr 4"
    "interpolate (Finite 0) (Finite 20) 2 5 = Inr 8"
    "interpolate (Finite 0) (Finite 20) 3 5 = Inr 12"
    "interpolate (Finite 0) (Finite 20) 4 5 = Inr 16"
    "interpolate (Finite 0) (Finite 20) 5 5 = Inr 20"
    by (simp_all add: interpolate_eval)
  have range: "{1..5::int} = {1, 2, 3, 4, 5}"
    by auto
  have coords: "\<forall>i\<in>{1..5}. interpolate (mouse_x mouse_init) (Finite 10) i 5 = Inr (2 * i)
                   \<and> interpolate (mouse_y mouse_init) (Finite 20) i 5 = Inr (4 * i)"
    unfolding range using xs ys by (simp add: mouse_init_def)
  have exact: "lerp (mouse_x mouse_init) (Finite 10) (Finite 1) = Finite 10"
    "lerp (mouse_y mouse_init) (Finite 20) (Finite 1) = Finite 20"
    by (simp_all add: mouse_init_def lerp_def fsub_def float_eval)
  have rounds: "round_float (Finite 10) = Inr 10" "round_float (Finite 20) = Inr 20"
    by (simp_all add: round_float_def py_round_def)
  have steps_list: "[1..5::int] = [1, 2, 3, 4, 5]"
    by (simp add: upto_rec1)
  show ?thesis
    using steps coords exact rounds steps_list
      move_dispatches_steps [of "Finite 10" "Finite 20" "\<lparr>opt_steps = Some 5\<rparr>" mouse_init init 5
        "\<lambda>i. 2 * i" "\<lambda>i. 4 * i"]
    by (simp add: mouse_init_def init_def)
qed

end
